theory Spec2Isabelle
  imports Main "HOL-Library.Sublist"
begin

section \<open>Rate-card header renderers (static/js/ratecards.js)\<close>

text \<open>
  The module consists of four functions, \<open>renderProjectsRateCard\<close>,
  \<open>renderDispatchRateCard\<close>, \<open>renderScheduledRateCard\<close> and
  \<open>renderDedicatedRateCard\<close>. Each takes \<open>(url, container)\<close>, binds a
  template literal to the local constant \<open>header\<close> and assigns
  \<^verbatim>\<open><table>${header}<tbody></tbody></table>\<close> to \<open>container.innerHTML\<close>.
  The Dedicated function first evaluates
  \<^verbatim>\<open>fetch(url).then(val => val.json()).then(val => console.log(val)).catch(e => console.log(e))\<close>.

  Everything the functions touch belongs to the host (the DOM, the network, the
  console, the promise machinery), so the embedding makes the host an explicit state
  that every renderer takes and returns.
\<close>

subsection \<open>Host values\<close>

text \<open>
  Errors are values. \<open>TypeError\<close> is what an assignment to a property of
  \<open>null\<close> raises and what \<open>fetch\<close> rejects with on a network failure;
  \<open>SyntaxError\<close> is what \<open>Response.json()\<close> rejects with on a body that is
  not JSON; \<open>AbortError\<close> stands for the remaining rejections of the host.
\<close>

datatype js_error = TypeError | SyntaxError | AbortError

text \<open>
  A promise is modelled by the state it finally reaches; \<open>Pending\<close> is a promise
  that never settles (the source sets no timeout).
\<close>

datatype 'a promise = Pending | Rejected js_error | Fulfilled 'a

text \<open>
  Of a response only the method \<open>json()\<close> is used: the promise of the decoded
  body. The type \<open>'v\<close> of decoded values is left open.
\<close>

datatype 'v response = Response (json: "'v promise")

text \<open>What \<open>console.log\<close> can receive here: a decoded value or an error.\<close>

datatype 'v js_value = Json 'v | Error js_error

text \<open>
  The \<open>container\<close> argument is \<open>null\<close> (or \<open>undefined\<close>, when
  the argument is left out) or a reference to a DOM element.
  Elements live in a store indexed by their reference.
\<close>

datatype container = Null | Elem nat

text \<open>
  The host state. \<open>elements\<close> gives the \<open>innerHTML\<close> of every element,
  as the string last assigned to it (the parsing and re-serialising that a browser
  performs behind that property is outside the module); \<open>network\<close> is the environment, the promise
  that \<open>fetch\<close> returns for a url; \<open>requests\<close> lists the urls fetched so
  far; \<open>console\<close> is the log; \<open>pending\<close> holds the promise chains that
  were set up and that the event loop has still to run. The callbacks of this module
  only write to the console, so a chain is a function on the log.
\<close>

record 'v world =
  elements :: "nat \<Rightarrow> string"
  network :: "string \<Rightarrow> 'v response promise"
  requests :: "string list"
  console :: "'v js_value list"
  pending :: "('v js_value list \<Rightarrow> 'v js_value list) list"

subsection \<open>Host operations\<close>

text \<open>
  \<open>container.innerHTML = html\<close>: a \<open>TypeError\<close> on \<open>null\<close>, otherwise
  the element's content is replaced and the statement completes normally.
\<close>

definition set_innerHTML ::
  "container \<Rightarrow> string \<Rightarrow> 'v world \<Rightarrow> (js_error + unit) \<times> 'v world" where
  "set_innerHTML container html w =
     (case container of
        Null \<Rightarrow> (Inl TypeError, w)
      | Elem r \<Rightarrow> (Inr (), w\<lparr>elements := (elements w)(r := html)\<rparr>))"

text \<open>\<open>fetch(url)\<close> issues the request and returns its promise; it never throws.\<close>

definition fetch :: "string \<Rightarrow> 'v world \<Rightarrow> 'v response promise \<times> 'v world" where
  "fetch url w = (network w url, w\<lparr>requests := requests w @ [url]\<rparr>)"

definition console_log :: "'v js_value \<Rightarrow> 'v js_value list \<Rightarrow> 'v js_value list" where
  "console_log v log = log @ [v]"

text \<open>
  \<open>p.then(f)\<close> and \<open>p.catch(h)\<close>. A callback receives the settled value and
  the log, and returns the promise it resolves to together with the new log. A
  rejection passes through \<open>then\<close>, a fulfilment through \<open>catch\<close>, and a
  promise that never settles runs no callback.
\<close>

definition then_promise ::
  "'a promise \<Rightarrow> ('a \<Rightarrow> 'c \<Rightarrow> 'b promise \<times> 'c) \<Rightarrow> 'c \<Rightarrow> 'b promise \<times> 'c" where
  "then_promise p f c =
     (case p of
        Fulfilled x \<Rightarrow> f x c
      | Rejected e \<Rightarrow> (Rejected e, c)
      | Pending \<Rightarrow> (Pending, c))"

definition catch_promise ::
  "'a promise \<Rightarrow> (js_error \<Rightarrow> 'c \<Rightarrow> 'a promise \<times> 'c) \<Rightarrow> 'c \<Rightarrow> 'a promise \<times> 'c" where
  "catch_promise p h c =
     (case p of
        Rejected e \<Rightarrow> h e c
      | Fulfilled x \<Rightarrow> (Fulfilled x, c)
      | Pending \<Rightarrow> (Pending, c))"

text \<open>
  The event loop, after the synchronous call has returned: every chain that was set
  up runs, in order, against the log.
\<close>

definition run_pending :: "'v world \<Rightarrow> 'v world" where
  "run_pending w =
     w\<lparr>console := fold (\<lambda>chain log. chain log) (pending w) (console w), pending := []\<rparr>"

subsection \<open>The four header literals\<close>

text \<open>
  The local constant \<open>header\<close> of each function, character for character. Each
  is one template literal on one line of the source, without any \<^verbatim>\<open>${...}\<close>;
  here it is cut at cell boundaries.
\<close>

definition projects_header :: string where
  \<open>projects_header =
     ''<thead><tr><th rowspan="2">#</th><th rowspan="2">Customer</th>'' @
     ''<th rowspan="2">Region</th><th rowspan="2">Country</th>'' @
     ''<th rowspan="2">Supplier</th><th rowspan="2">Currency</th>'' @
     ''<th rowspan="2">Entity</th><th rowspan="2">Payment</th>'' @
     ''<th colspan="5">Short Term (Up to 3 Months)</th>'' @
     ''<th colspan="5">Long Term (more than 3 Months) </th>'' @
     ''<th rowspan="2">Status</th><th rowspan="2">Action</th></tr><tr><th>Band 0</th>'' @
     ''<th>Band 1</th><th>Band 2</th><th>Band 3</th><th>Band 4</th><th>Band 0</th>'' @
     ''<th>Band 1</th><th>Band 2</th><th>Band 3</th><th>Band 4</th></tr></thead>''\<close>

definition dispatch_header :: string where
  \<open>dispatch_header =
     ''<thead><tr><th rowspan="2">#</th><th rowspan="2">Customer</th>'' @
     ''<th rowspan="2">Region</th><th rowspan="2">Country</th>'' @
     ''<th rowspan="2">Supplier</th><th rowspan="2">Currency</th>'' @
     ''<th rowspan="2">Entity</th><th rowspan="2">Payment</th>'' @
     ''<th colspan="6">Dispatch Tickets (incident) </th>'' @
     ''<th colspan="3">Dispatch Ticket (IMAC) </th><th rowspan="2">Status</th>'' @
     ''<th rowspan="2">Action</th></tr><tr><th>4 Hours</th><th>SBD</th><th>NBD</th>'' @
     ''<th>2 BD</th><th>3 BD</th><th>Additional Hour</th><th>2BD</th><th>3 BD</th>'' @
     ''<th>4 BD</th></tr></thead>''\<close>

definition scheduled_header :: string where
  \<open>scheduled_header =
     ''<thead><tr><th rowspan="2">#</th><th rowspan="2">Customer</th>'' @
     ''<th rowspan="2">Region</th><th rowspan="2">Country</th>'' @
     ''<th rowspan="2">Supplier</th><th rowspan="2">Currency</th>'' @
     ''<th rowspan="2">Entity</th><th rowspan="2">Payment</th>'' @
     ''<th colspan="3">Full Day Visit (8hrs)</th>'' @
     ''<th colspan="3">1/2 Day Visit (4hrs) </th><th rowspan="2">Status</th>'' @
     ''<th rowspan="2">Action</th></tr><tr><th>Band 0</th><th>Band 1</th>'' @
     ''<th>Band 2</th><th>Band 0</th><th>Band 1</th><th>Band 2</th></tr></thead>''\<close>

definition dedicated_header :: string where
  \<open>dedicated_header =
     ''<thead><tr><th rowspan="2">#</th><th rowspan="2">Customer</th>'' @
     ''<th rowspan="2">Region</th><th rowspan="2">Country</th>'' @
     ''<th rowspan="2">Supplier</th><th rowspan="2">Currency</th>'' @
     ''<th rowspan="2">Entity</th><th rowspan="2">Payment</th>'' @
     ''<th colspan="2">Band 0</th><th colspan="2">Band 1</th>'' @
     ''<th colspan="2">Band 2</th><th colspan="2">Band 3</th>'' @
     ''<th colspan="2">Band 4</th><th rowspan="2">Status</th>'' @
     ''<th rowspan="2">Action</th></tr><tr><th>With</th><th>Without</th><th>With</th>'' @
     ''<th>Without</th><th>With</th><th>Without</th><th>With</th><th>Without</th>'' @
     ''<th>With</th><th>Without</th></tr></thead>''\<close>

subsection \<open>The renderers\<close>

definition renderProjectsRateCard ::
  "string \<Rightarrow> container \<Rightarrow> 'v world \<Rightarrow> (js_error + unit) \<times> 'v world" where
  "renderProjectsRateCard url container w =
     (let header = projects_header
      in set_innerHTML container (''<table>'' @ header @ ''<tbody></tbody></table>'') w)"

definition renderDispatchRateCard ::
  "string \<Rightarrow> container \<Rightarrow> 'v world \<Rightarrow> (js_error + unit) \<times> 'v world" where
  "renderDispatchRateCard url container w =
     (let header = dispatch_header
      in set_innerHTML container (''<table>'' @ header @ ''<tbody></tbody></table>'') w)"

definition renderScheduledRateCard ::
  "string \<Rightarrow> container \<Rightarrow> 'v world \<Rightarrow> (js_error + unit) \<times> 'v world" where
  "renderScheduledRateCard url container w =
     (let header = scheduled_header
      in set_innerHTML container (''<table>'' @ header @ ''<tbody></tbody></table>'') w)"

text \<open>
  The Dedicated renderer issues the fetch and sets up the chain before it touches the
  container; the chain itself runs later, from the event loop.
\<close>

definition renderDedicatedRateCard ::
  "string \<Rightarrow> container \<Rightarrow> 'v world \<Rightarrow> (js_error + unit) \<times> 'v world" where
  "renderDedicatedRateCard url container w =
     (let header = dedicated_header;
          (p0, w0) = fetch url w;
          chain = (\<lambda>log.
            let (p1, log1) = then_promise p0 (\<lambda>val l. (json val, l)) log;
                (p2, log2) = then_promise p1 (\<lambda>val l. (Fulfilled (), console_log (Json val) l)) log1;
                (p3, log3) = catch_promise p2 (\<lambda>e l. (Fulfilled (), console_log (Error e) l)) log2
            in log3);
          w1 = w0\<lparr>pending := pending w0 @ [chain]\<rparr>
      in set_innerHTML container (''<table>'' @ header @ ''<tbody></tbody></table>'') w1)"

subsection \<open>Reading the written markup back\<close>

text \<open>
  The claims speak about rows, cells, labels and spans of the table that a renderer
  writes, so the written string is read back into a tree. The reader covers the
  fragment of HTML that the renderers produce: start tags with double-quoted
  attributes, explicit end tags and text; anything else is \<open>Malformed\<close>.
\<close>

datatype token = Open string "(string \<times> string) list" | Close string | Text string | Malformed

text \<open>Words of a start tag, cut at spaces outside double quotes.\<close>

fun split_words :: "bool \<Rightarrow> string \<Rightarrow> string \<Rightarrow> string list" where
  "split_words quoted acc [] = [acc]"
| "split_words quoted acc (c # cs) =
     (if c = CHR 0x22 then split_words (\<not> quoted) (acc @ [c]) cs
      else if c = CHR '' '' \<and> \<not> quoted then acc # split_words False [] cs
      else split_words quoted (acc @ [c]) cs)"

definition unquote :: "string \<Rightarrow> string" where
  "unquote v =
     (if 2 \<le> length v \<and> hd v = CHR 0x22 \<and> last v = CHR 0x22 then butlast (tl v) else v)"

definition attribute :: "string \<Rightarrow> string \<times> string" where
  "attribute a =
     (takeWhile (\<lambda>c. c \<noteq> CHR ''='') a, unquote (drop 1 (dropWhile (\<lambda>c. c \<noteq> CHR ''='') a)))"

definition tag_token :: "string \<Rightarrow> token" where
  "tag_token s =
     (case s of
        [] \<Rightarrow> Malformed
      | c # cs \<Rightarrow>
          if c = CHR ''/'' then Close cs
          else (case filter (\<lambda>x. x \<noteq> []) (split_words False [] s) of
                  [] \<Rightarrow> Malformed
                | n # as \<Rightarrow> Open n (map attribute as)))"

definition text_token :: "string \<Rightarrow> token list" where
  "text_token acc = (if acc = [] then [] else [Text acc])"

datatype lex_mode = InText | InTag | InQuoted

fun scan :: "lex_mode \<Rightarrow> string \<Rightarrow> string \<Rightarrow> token list" where
  "scan InText acc [] = text_token acc"
| "scan InTag acc [] = [Malformed]"
| "scan InQuoted acc [] = [Malformed]"
| "scan InText acc (c # cs) =
     (if c = CHR ''<'' then text_token acc @ scan InTag [] cs
      else scan InText (acc @ [c]) cs)"
| "scan InTag acc (c # cs) =
     (if c = CHR ''>'' then tag_token acc # scan InText [] cs
      else if c = CHR 0x22 then scan InQuoted (acc @ [c]) cs
      else scan InTag (acc @ [c]) cs)"
| "scan InQuoted acc (c # cs) =
     (if c = CHR 0x22 then scan InTag (acc @ [c]) cs
      else scan InQuoted (acc @ [c]) cs)"

datatype node = Element string "(string \<times> string) list" "node list" | TextNode string

text \<open>
  The tree is built with a stack of the elements that are still open, each with the
  siblings collected before it; an end tag must close the innermost open element.
\<close>

fun build ::
  "(string \<times> (string \<times> string) list \<times> node list) list \<Rightarrow> node list \<Rightarrow> token list
     \<Rightarrow> node list option" where
  "build stack acc [] = (if stack = [] then Some (rev acc) else None)"
| "build stack acc (Text t # ts) = build stack (TextNode t # acc) ts"
| "build stack acc (Open n a # ts) = build ((n, a, acc) # stack) [] ts"
| "build stack acc (Close n # ts) =
     (case stack of
        [] \<Rightarrow> None
      | (m, a, sibs) # rest \<Rightarrow>
          if n = m then build rest (Element m a (rev acc) # sibs) ts else None)"
| "build stack acc (Malformed # ts) = None"

definition parse_html :: "string \<Rightarrow> node list option" where
  "parse_html s = build [] [] (scan InText [] s)"

text \<open>
  A header cell: its label and its \<open>rowspan\<close> and \<open>colspan\<close> attributes, where
  present. A span is a decimal numeral.
\<close>

record cell =
  label :: string
  rowspan :: "nat option"
  colspan :: "nat option"

definition digit :: "char \<Rightarrow> bool" where
  "digit c = (48 \<le> (of_char c :: nat) \<and> (of_char c :: nat) \<le> 57)"

definition decimal :: "string \<Rightarrow> nat option" where
  "decimal s =
     (if s \<noteq> [] \<and> list_all digit s
      then Some (foldl (\<lambda>n c. 10 * n + (of_char c - 48)) 0 s) else None)"

definition span :: "(string \<times> string) list \<Rightarrow> string \<Rightarrow> nat option" where
  "span attrs name = (case map_of attrs name of None \<Rightarrow> None | Some v \<Rightarrow> decimal v)"

fun text_of :: "node list \<Rightarrow> string option" where
  "text_of [] = Some []"
| "text_of [TextNode t] = Some t"
| "text_of kids = None"

definition cell_of :: "node \<Rightarrow> cell option" where
  "cell_of n =
     (case n of
        TextNode t \<Rightarrow> None
      | Element tag attrs kids \<Rightarrow>
          if tag = ''th''
          then map_option
                 (\<lambda>t. \<lparr>label = t, rowspan = span attrs ''rowspan'', colspan = span attrs ''colspan''\<rparr>)
                 (text_of kids)
          else None)"

definition row_of :: "node \<Rightarrow> cell list option" where
  "row_of n =
     (case n of
        TextNode t \<Rightarrow> None
      | Element tag attrs kids \<Rightarrow>
          if tag = ''tr'' \<and> attrs = [] then those (map cell_of kids) else None)"

definition section_of :: "string \<Rightarrow> node \<Rightarrow> cell list list option" where
  "section_of name n =
     (case n of
        TextNode t \<Rightarrow> None
      | Element tag attrs kids \<Rightarrow>
          if tag = name \<and> attrs = [] then those (map row_of kids) else None)"

text \<open>
  A table in the shape \<^verbatim>\<open><table><thead>rows</thead><tbody>rows</tbody></table>\<close>:
  the rows of its head and the rows of its body.
\<close>

record table =
  thead :: "cell list list"
  tbody :: "cell list list"

definition table_of :: "node list \<Rightarrow> table option" where
  "table_of ns =
     (case ns of
        [Element tag attrs [h, b]] \<Rightarrow>
          if tag = ''table'' \<and> attrs = []
          then (case (section_of ''thead'' h, section_of ''tbody'' b) of
                  (Some hs, Some bs) \<Rightarrow> Some \<lparr>thead = hs, tbody = bs\<rparr>
                | _ \<Rightarrow> None)
          else None
      | _ \<Rightarrow> None)"

definition read_table :: "string \<Rightarrow> table option" where
  "read_table s = (case parse_html s of None \<Rightarrow> None | Some ns \<Rightarrow> table_of ns)"

subsection \<open>Vocabulary of the properties\<close>

text \<open>The string that \<^verbatim>\<open>`<table>${header}<tbody></tbody></table>`\<close> denotes.\<close>

definition table_markup :: "string \<Rightarrow> string" where
  "table_markup header = ''<table>'' @ header @ ''<tbody></tbody></table>''"

text \<open>
  The three kinds of header cell that occur: a cell spanning both header rows, a
  group cell spanning several columns of the second row, and a plain cell.
\<close>

definition tall_cell :: "string \<Rightarrow> cell" where
  "tall_cell l = \<lparr>label = l, rowspan = Some 2, colspan = None\<rparr>"

definition group_cell :: "nat \<Rightarrow> string \<Rightarrow> cell" where
  "group_cell n l = \<lparr>label = l, rowspan = None, colspan = Some n\<rparr>"

definition sub_cell :: "string \<Rightarrow> cell" where
  "sub_cell l = \<lparr>label = l, rowspan = None, colspan = None\<rparr>"

text \<open>The eight columns that open the first header row of every category.\<close>

definition generic_columns :: "cell list" where
  "generic_columns =
     map tall_cell [''#'', ''Customer'', ''Region'', ''Country'', ''Supplier'', ''Currency'',
       ''Entity'', ''Payment'']"

text \<open>The \<open>colspan\<close> values of the cells of a row that carry one.\<close>

definition colspans :: "cell list \<Rightarrow> nat list" where
  "colspans row = List.map_filter colspan row"

text \<open>
  Column alignment of a written table: it has two header rows, and the colspans of
  the first add up to the number of cells of the second.
\<close>

definition column_aligned :: "string \<Rightarrow> bool" where
  "column_aligned html =
     (case read_table html of
        None \<Rightarrow> False
      | Some t \<Rightarrow>
          (case thead t of
             [r1, r2] \<Rightarrow> sum_list (colspans r1) = length r2
           | _ \<Rightarrow> False))"

text \<open>For each header row, its colspans and its number of cells.\<close>

definition span_profile :: "string \<Rightarrow> (nat list \<times> nat) list option" where
  "span_profile html =
     map_option (\<lambda>t. map (\<lambda>row. (colspans row, length row)) (thead t)) (read_table html)"

text \<open>The number of header rows and of body rows.\<close>

definition table_shape :: "string \<Rightarrow> (nat \<times> nat) option" where
  "table_shape html = map_option (\<lambda>t. (length (thead t), length (tbody t))) (read_table html)"

text \<open>The groups of a header: label and width of every cell of row 1 with a colspan.\<close>

definition groups :: "cell list \<Rightarrow> (string \<times> nat) list" where
  "groups row = List.map_filter (\<lambda>c. map_option (\<lambda>n. (label c, n)) (colspan c)) row"

text \<open>Whether a string occurs in another as a contiguous piece.\<close>

fun occurs_in :: "string \<Rightarrow> string \<Rightarrow> bool" where
  "occurs_in p [] = (p = [])"
| "occurs_in p (c # cs) = (prefix p (c # cs) \<or> occurs_in p cs)"

text \<open>
  The character U+00BD (vulgar fraction one half) in UTF-8. The header literals are
  ASCII, so each \<open>char\<close> of the model is one character of the source.
\<close>

definition one_half_sign :: string where
  "one_half_sign = [CHR 0xC2, CHR 0xBD]"

text \<open>
  Of a written table: the groups of its first header row, the labels of its second
  header row, and whether its groups carry labels that begin with given words, in
  order.
\<close>

definition header_groups :: "string \<Rightarrow> (string \<times> nat) list option" where
  "header_groups html =
     (case read_table html of
        None \<Rightarrow> None
      | Some t \<Rightarrow> (case thead t of [r1, r2] \<Rightarrow> Some (groups r1) | _ \<Rightarrow> None))"

definition sub_columns :: "string \<Rightarrow> string list option" where
  "sub_columns html =
     (case read_table html of
        None \<Rightarrow> None
      | Some t \<Rightarrow> (case thead t of [r1, r2] \<Rightarrow> Some (map label r2) | _ \<Rightarrow> None))"

definition groups_start_with :: "string \<Rightarrow> string list \<Rightarrow> bool" where
  "groups_start_with html names =
     (case header_groups html of
        None \<Rightarrow> False
      | Some gs \<Rightarrow> list_all2 (\<lambda>g name. prefix name (fst g)) gs names)"

text \<open>
  Two hosts for concrete runs. In \<open>blank_world\<close> every element is empty and no
  fetch ever settles. In \<open>demo_world\<close> every element holds earlier content, and
  the network answers one url with JSON that decodes to \<open>7\<close>, one with a body
  that is not JSON, leaves one without an answer and fails for all others.
\<close>

definition blank_world :: "nat world" where
  "blank_world =
     \<lparr>elements = (\<lambda>r. []), network = (\<lambda>url. Pending), requests = [], console = [],
      pending = []\<rparr>"

definition demo_network :: "string \<Rightarrow> nat response promise" where
  "demo_network url =
     (if url = ''/rate-cards/dedicated/all'' then Fulfilled (Response (Fulfilled 7))
      else if url = ''/index.html'' then Fulfilled (Response (Rejected SyntaxError))
      else if url = ''/slow'' then Pending
      else Rejected TypeError)"

definition demo_world :: "nat world" where
  "demo_world =
     \<lparr>elements = (\<lambda>r. ''<p>old</p>''), network = demo_network, requests = [], console = [],
      pending = []\<rparr>"

section \<open>What a call does\<close>

subsection \<open>The written tables, read back\<close>

lemmas reader_defs =
  table_markup_def read_table_def parse_html_def tag_token_def text_token_def attribute_def
  unquote_def table_of_def section_of_def row_of_def cell_of_def span_def decimal_def digit_def
  tall_cell_def group_cell_def sub_cell_def generic_columns_def

lemma read_projects:
  "read_table (table_markup projects_header) =
     Some \<lparr>thead =
       [generic_columns @
        [group_cell 5 ''Short Term (Up to 3 Months)'',
         group_cell 5 ''Long Term (more than 3 Months) ''] @
        map tall_cell [''Status'', ''Action''],
        map sub_cell [''Band 0'', ''Band 1'', ''Band 2'', ''Band 3'', ''Band 4'',
          ''Band 0'', ''Band 1'', ''Band 2'', ''Band 3'', ''Band 4'']],
       tbody = []\<rparr>"
  by (simp add: projects_header_def reader_defs)

lemma read_dispatch:
  "read_table (table_markup dispatch_header) =
     Some \<lparr>thead =
       [generic_columns @
        [group_cell 6 ''Dispatch Tickets (incident) '',
         group_cell 3 ''Dispatch Ticket (IMAC) ''] @
        map tall_cell [''Status'', ''Action''],
        map sub_cell [''4 Hours'', ''SBD'', ''NBD'', ''2 BD'', ''3 BD'', ''Additional Hour'',
          ''2BD'', ''3 BD'', ''4 BD'']],
       tbody = []\<rparr>"
  by (simp add: dispatch_header_def reader_defs)

lemma read_scheduled:
  "read_table (table_markup scheduled_header) =
     Some \<lparr>thead =
       [generic_columns @
        [group_cell 3 ''Full Day Visit (8hrs)'',
         group_cell 3 ''1/2 Day Visit (4hrs) ''] @
        map tall_cell [''Status'', ''Action''],
        map sub_cell [''Band 0'', ''Band 1'', ''Band 2'', ''Band 0'', ''Band 1'', ''Band 2'']],
       tbody = []\<rparr>"
  by (simp add: scheduled_header_def reader_defs)

lemma read_dedicated:
  "read_table (table_markup dedicated_header) =
     Some \<lparr>thead =
       [generic_columns @
        map (group_cell 2) [''Band 0'', ''Band 1'', ''Band 2'', ''Band 3'', ''Band 4''] @
        map tall_cell [''Status'', ''Action''],
        map sub_cell [''With'', ''Without'', ''With'', ''Without'', ''With'', ''Without'',
          ''With'', ''Without'', ''With'', ''Without'']],
       tbody = []\<rparr>"
  by (simp add: dedicated_header_def reader_defs)

lemmas cell_defs =
  colspans_def groups_def List.map_filter_simps generic_columns_def tall_cell_def
  group_cell_def sub_cell_def

subsection \<open>The three renderers without a fetch\<close>

lemma projects_on_element:
  "renderProjectsRateCard url (Elem r) w =
     (Inr (), w\<lparr>elements := (elements w)(r := table_markup projects_header)\<rparr>)"
  by (simp add: renderProjectsRateCard_def set_innerHTML_def table_markup_def)

lemma dispatch_on_element:
  "renderDispatchRateCard url (Elem r) w =
     (Inr (), w\<lparr>elements := (elements w)(r := table_markup dispatch_header)\<rparr>)"
  by (simp add: renderDispatchRateCard_def set_innerHTML_def table_markup_def)

lemma scheduled_on_element:
  "renderScheduledRateCard url (Elem r) w =
     (Inr (), w\<lparr>elements := (elements w)(r := table_markup scheduled_header)\<rparr>)"
  by (simp add: renderScheduledRateCard_def set_innerHTML_def table_markup_def)

lemma projects_on_null: "renderProjectsRateCard url Null w = (Inl TypeError, w)"
  by (simp add: renderProjectsRateCard_def set_innerHTML_def)

lemma dispatch_on_null: "renderDispatchRateCard url Null w = (Inl TypeError, w)"
  by (simp add: renderDispatchRateCard_def set_innerHTML_def)

lemma scheduled_on_null: "renderScheduledRateCard url Null w = (Inl TypeError, w)"
  by (simp add: renderScheduledRateCard_def set_innerHTML_def)

subsection \<open>The Dedicated renderer\<close>

lemma dedicated_result:
  "fst (renderDedicatedRateCard url container w) =
     (case container of Null \<Rightarrow> Inl TypeError | Elem r \<Rightarrow> Inr ())"
  by (simp add: renderDedicatedRateCard_def set_innerHTML_def fetch_def Let_def
      split: container.split)

lemma dedicated_elements:
  "elements (snd (renderDedicatedRateCard url container w)) =
     (case container of
        Null \<Rightarrow> elements w
      | Elem r \<Rightarrow> (elements w)(r := table_markup dedicated_header))"
  by (simp add: renderDedicatedRateCard_def set_innerHTML_def fetch_def Let_def
      table_markup_def split: container.split)

lemma dedicated_requests:
  "requests (snd (renderDedicatedRateCard url container w)) = requests w @ [url]"
  by (simp add: renderDedicatedRateCard_def set_innerHTML_def fetch_def Let_def
      split: container.split)


lemma dedicated_pending_length:
  "length (pending (snd (renderDedicatedRateCard url container w))) = Suc (length (pending w))"
  by (simp add: renderDedicatedRateCard_def set_innerHTML_def fetch_def Let_def
      split: container.split)


lemma run_pending_elements: "elements (run_pending w) = elements w"
  by (simp add: run_pending_def)

section \<open>The claims\<close>

subsection \<open>Header shapes\<close>

text \<open>
  C1. Column alignment. For each of the four renderers, in the header it writes, the
  colspan values of the cells of row 1 that carry a colspan add up to the number of
  cells of row 2: 5 + 5 = 10 for Projects, 6 + 3 = 9 for Dispatch, 3 + 3 = 6 for
  Scheduled and 2 + 2 + 2 + 2 + 2 = 10 for Dedicated. The profile lists, for row 1 and
  row 2, the colspans and the number of cells.
\<close>

theorem column_alignment:
  "column_aligned (elements (snd (renderProjectsRateCard url (Elem r) w)) r) \<and>
   span_profile (elements (snd (renderProjectsRateCard url (Elem r) w)) r) =
     Some [([5, 5], 12), ([], 10)] \<and>
   column_aligned (elements (snd (renderDispatchRateCard url (Elem r) w)) r) \<and>
   span_profile (elements (snd (renderDispatchRateCard url (Elem r) w)) r) =
     Some [([6, 3], 12), ([], 9)] \<and>
   column_aligned (elements (snd (renderScheduledRateCard url (Elem r) w)) r) \<and>
   span_profile (elements (snd (renderScheduledRateCard url (Elem r) w)) r) =
     Some [([3, 3], 12), ([], 6)] \<and>
   column_aligned (elements (snd (renderDedicatedRateCard url (Elem r) w)) r) \<and>
   span_profile (elements (snd (renderDedicatedRateCard url (Elem r) w)) r) =
     Some [([2, 2, 2, 2, 2], 15), ([], 10)]"
proof -
  have p: "column_aligned (table_markup projects_header) \<and>
      span_profile (table_markup projects_header) = Some [([5, 5], 12), ([], 10)]"
    by (simp add: column_aligned_def span_profile_def read_projects cell_defs)
  have d: "column_aligned (table_markup dispatch_header) \<and>
      span_profile (table_markup dispatch_header) = Some [([6, 3], 12), ([], 9)]"
    by (simp add: column_aligned_def span_profile_def read_dispatch cell_defs)
  have s: "column_aligned (table_markup scheduled_header) \<and>
      span_profile (table_markup scheduled_header) = Some [([3, 3], 12), ([], 6)]"
    by (simp add: column_aligned_def span_profile_def read_scheduled cell_defs)
  have x: "column_aligned (table_markup dedicated_header) \<and>
      span_profile (table_markup dedicated_header) = Some [([2, 2, 2, 2, 2], 15), ([], 10)]"
    by (simp add: column_aligned_def span_profile_def read_dedicated cell_defs)
  from p d s x show ?thesis
    by (simp add: projects_on_element dispatch_on_element scheduled_on_element
        dedicated_elements)
qed

theorem column_alignment_witness:
  "column_aligned (elements (snd (renderProjectsRateCard ''/rate-cards/projects'' (Elem 0) demo_world)) 0) \<and>
   span_profile (elements (snd (renderProjectsRateCard ''/rate-cards/projects'' (Elem 0) demo_world)) 0) =
     Some [([5, 5], 12), ([], 10)] \<and>
   column_aligned (elements (snd (renderDispatchRateCard ''/rate-cards/projects'' (Elem 0) demo_world)) 0) \<and>
   span_profile (elements (snd (renderDispatchRateCard ''/rate-cards/projects'' (Elem 0) demo_world)) 0) =
     Some [([6, 3], 12), ([], 9)] \<and>
   column_aligned (elements (snd (renderScheduledRateCard ''/rate-cards/projects'' (Elem 0) demo_world)) 0) \<and>
   span_profile (elements (snd (renderScheduledRateCard ''/rate-cards/projects'' (Elem 0) demo_world)) 0) =
     Some [([3, 3], 12), ([], 6)] \<and>
   column_aligned (elements (snd (renderDedicatedRateCard ''/rate-cards/projects'' (Elem 0) demo_world)) 0) \<and>
   span_profile (elements (snd (renderDedicatedRateCard ''/rate-cards/projects'' (Elem 0) demo_world)) 0) =
     Some [([2, 2, 2, 2, 2], 15), ([], 10)]"
  by (rule column_alignment)

text \<open>
  C2. For every element passed as container, whatever it held, and every url, each
  renderer returns \<open>undefined\<close> and leaves the element holding
  \<^verbatim>\<open><table>\<close>, the header, \<^verbatim>\<open><tbody></tbody></table>\<close>: a table with two
  header rows and no body row. The earlier content is replaced and does not occur in
  the result. Of the host, the first three renderers change nothing else.
\<close>

theorem render_replaces_content:
  "renderProjectsRateCard url (Elem r) w =
     (Inr (), w\<lparr>elements := (elements w)(r := ''<table>'' @ projects_header @ ''<tbody></tbody></table>'')\<rparr>) \<and>
   table_shape (elements (snd (renderProjectsRateCard url (Elem r) w)) r) = Some (2, 0) \<and>
   renderDispatchRateCard url (Elem r) w =
     (Inr (), w\<lparr>elements := (elements w)(r := ''<table>'' @ dispatch_header @ ''<tbody></tbody></table>'')\<rparr>) \<and>
   table_shape (elements (snd (renderDispatchRateCard url (Elem r) w)) r) = Some (2, 0) \<and>
   renderScheduledRateCard url (Elem r) w =
     (Inr (), w\<lparr>elements := (elements w)(r := ''<table>'' @ scheduled_header @ ''<tbody></tbody></table>'')\<rparr>) \<and>
   table_shape (elements (snd (renderScheduledRateCard url (Elem r) w)) r) = Some (2, 0) \<and>
   fst (renderDedicatedRateCard url (Elem r) w) = Inr () \<and>
   elements (snd (renderDedicatedRateCard url (Elem r) w)) =
     (elements w)(r := ''<table>'' @ dedicated_header @ ''<tbody></tbody></table>'') \<and>
   table_shape (elements (snd (renderDedicatedRateCard url (Elem r) w)) r) = Some (2, 0)"
proof -
  have "table_shape (table_markup projects_header) = Some (2, 0)"
    and "table_shape (table_markup dispatch_header) = Some (2, 0)"
    and "table_shape (table_markup scheduled_header) = Some (2, 0)"
    and "table_shape (table_markup dedicated_header) = Some (2, 0)"
    by (simp_all add: table_shape_def read_projects read_dispatch read_scheduled read_dedicated)
  then show ?thesis
    by (simp add: projects_on_element dispatch_on_element scheduled_on_element
        dedicated_elements dedicated_result)
      (simp add: table_markup_def)
qed

theorem render_replaces_content_witness:
  "elements demo_world 4 = ''<p>old</p>'' \<and>
   fst (renderProjectsRateCard ''/rate-cards/projects'' (Elem 4) demo_world) = Inr () \<and>
   elements (snd (renderProjectsRateCard ''/rate-cards/projects'' (Elem 4) demo_world)) 4 =
     ''<table>'' @ projects_header @ ''<tbody></tbody></table>'' \<and>
   table_shape (elements (snd (renderProjectsRateCard ''/rate-cards/projects'' (Elem 4) demo_world)) 4) =
     Some (2, 0) \<and>
   elements (snd (renderProjectsRateCard ''/rate-cards/projects'' (Elem 4) demo_world)) 5 =
     ''<p>old</p>''"
proof -
  note t = render_replaces_content [of "''/rate-cards/projects''" 4 demo_world]
  from t have eq: "renderProjectsRateCard ''/rate-cards/projects'' (Elem 4) demo_world =
      (Inr (), demo_world\<lparr>elements := (elements demo_world)
         (4 := ''<table>'' @ projects_header @ ''<tbody></tbody></table>'')\<rparr>)"
    by (rule conjunct1)
  from t have sh: "table_shape
      (elements (snd (renderProjectsRateCard ''/rate-cards/projects'' (Elem 4) demo_world)) 4) =
      Some (2, 0)"
    by (rule conjunct1 [OF conjunct2])
  have old: "elements demo_world 4 = ''<p>old</p>''" "elements demo_world 5 = ''<p>old</p>''"
    by (simp_all add: demo_world_def)
  from sh old show ?thesis
    unfolding eq by simp
qed

text \<open>
  C3, as the code has it. Rendering the Scheduled category into an empty container
  returns normally and leaves the container holding a table with two header rows and
  no body row. Row 1 holds the eight generic columns (#, Customer, Region, Country,
  Supplier, Currency, Entity, Payment), each with rowspan 2, then a group labelled
  \<^verbatim>\<open>Full Day Visit (8hrs)\<close> and a group labelled \<^verbatim>\<open>1/2 Day Visit (4hrs) \<close>
  (the half written with the three ASCII characters 1, /, 2 and the label ending in a
  space), each of colspan 3, then Status and Action with rowspan 2. Row 2 holds Band 0,
  Band 1, Band 2 under each group.
\<close>

theorem scheduled_into_empty_container:
  assumes "elements w r = []"
  shows "fst (renderScheduledRateCard url (Elem r) w) = Inr () \<and>
    read_table (elements (snd (renderScheduledRateCard url (Elem r) w)) r) =
      Some \<lparr>thead =
        [map tall_cell [''#'', ''Customer'', ''Region'', ''Country'', ''Supplier'', ''Currency'',
           ''Entity'', ''Payment''] @
         [group_cell 3 ''Full Day Visit (8hrs)'', group_cell 3 ''1/2 Day Visit (4hrs) ''] @
         map tall_cell [''Status'', ''Action''],
         map sub_cell [''Band 0'', ''Band 1'', ''Band 2'', ''Band 0'', ''Band 1'', ''Band 2'']],
        tbody = []\<rparr> \<and>
    groups_start_with (elements (snd (renderScheduledRateCard url (Elem r) w)) r)
      [''Full Day Visit'', ''1/2 Day Visit'']"
proof -
  have "groups_start_with (table_markup scheduled_header) [''Full Day Visit'', ''1/2 Day Visit'']"
    by (simp add: groups_start_with_def header_groups_def read_scheduled cell_defs)
  then show ?thesis
    by (simp add: scheduled_on_element read_scheduled generic_columns_def)
qed

theorem scheduled_into_empty_container_witness:
  "elements blank_world 0 = [] \<and>
   fst (renderScheduledRateCard ''/rate-cards/scheduled'' (Elem 0) blank_world) = Inr () \<and>
   header_groups (elements (snd (renderScheduledRateCard ''/rate-cards/scheduled'' (Elem 0) blank_world)) 0) =
     Some [(''Full Day Visit (8hrs)'', 3), (''1/2 Day Visit (4hrs) '', 3)] \<and>
   sub_columns (elements (snd (renderScheduledRateCard ''/rate-cards/scheduled'' (Elem 0) blank_world)) 0) =
     Some [''Band 0'', ''Band 1'', ''Band 2'', ''Band 0'', ''Band 1'', ''Band 2''] \<and>
   groups_start_with (elements (snd (renderScheduledRateCard ''/rate-cards/scheduled'' (Elem 0) blank_world)) 0)
     [''Full Day Visit'', ''1/2 Day Visit'']"
proof -
  have e: "elements blank_world 0 = []"
    by (simp add: blank_world_def)
  note t = scheduled_into_empty_container [OF e, of "''/rate-cards/scheduled''"]
  from e t show ?thesis
    by (simp add: header_groups_def sub_columns_def cell_defs)
qed

text \<open>
  C3 as the claim words it names the second group \<open>\<onehalf> Day Visit\<close>, with the
  single character U+00BD. At the claim's own input, the Scheduled renderer run on an
  empty container, the groups do not begin with those words, and neither that
  character nor its byte 0xBD occurs anywhere in what is written; the label is
  \<^verbatim>\<open>1/2 Day Visit (4hrs) \<close>.
\<close>

theorem scheduled_half_sign_counterexample:
  "\<not> groups_start_with
      (elements (snd (renderScheduledRateCard ''/rate-cards/scheduled'' (Elem 0) blank_world)) 0)
      [''Full Day Visit'', one_half_sign @ '' Day Visit''] \<and>
   \<not> occurs_in one_half_sign
      (elements (snd (renderScheduledRateCard ''/rate-cards/scheduled'' (Elem 0) blank_world)) 0) \<and>
   CHR 0xBD \<notin> set
      (elements (snd (renderScheduledRateCard ''/rate-cards/scheduled'' (Elem 0) blank_world)) 0) \<and>
   occurs_in ''>1/2 Day Visit (4hrs) </th>''
      (elements (snd (renderScheduledRateCard ''/rate-cards/scheduled'' (Elem 0) blank_world)) 0)"
proof -
  have g: "\<not> groups_start_with (table_markup scheduled_header)
      [''Full Day Visit'', one_half_sign @ '' Day Visit'']"
    by (simp add: groups_start_with_def header_groups_def read_scheduled cell_defs
        one_half_sign_def)
  have o: "\<not> occurs_in one_half_sign (table_markup scheduled_header)"
    by (simp add: one_half_sign_def table_markup_def scheduled_header_def)
  have c: "CHR 0xBD \<notin> set (table_markup scheduled_header)"
    by (simp add: table_markup_def scheduled_header_def)
  have p: "occurs_in ''>1/2 Day Visit (4hrs) </th>''
      (table_markup scheduled_header)"
    by (simp add: table_markup_def scheduled_header_def)
  from g o c p show ?thesis
    by (simp add: scheduled_on_element)
qed

text \<open>
  C4. The Projects header has exactly two groups, of 5 columns each, whose labels
  begin with \<open>Short Term\<close> and \<open>Long Term\<close>, over Band 0 to Band 4 twice. The
  Dedicated header has exactly five groups, Band 0 to Band 4, of 2 columns each, over
  \<open>With\<close> and \<open>Without\<close> five times: 10 cells in row 2.
\<close>

theorem projects_and_dedicated_groups:
  "header_groups (elements (snd (renderProjectsRateCard url (Elem r) w)) r) =
     Some [(''Short Term (Up to 3 Months)'', 5), (''Long Term (more than 3 Months) '', 5)] \<and>
   groups_start_with (elements (snd (renderProjectsRateCard url (Elem r) w)) r)
     [''Short Term'', ''Long Term''] \<and>
   sub_columns (elements (snd (renderProjectsRateCard url (Elem r) w)) r) =
     Some [''Band 0'', ''Band 1'', ''Band 2'', ''Band 3'', ''Band 4'',
           ''Band 0'', ''Band 1'', ''Band 2'', ''Band 3'', ''Band 4''] \<and>
   header_groups (elements (snd (renderDedicatedRateCard url (Elem r) w)) r) =
     Some [(''Band 0'', 2), (''Band 1'', 2), (''Band 2'', 2), (''Band 3'', 2), (''Band 4'', 2)] \<and>
   sub_columns (elements (snd (renderDedicatedRateCard url (Elem r) w)) r) =
     Some [''With'', ''Without'', ''With'', ''Without'', ''With'', ''Without'',
           ''With'', ''Without'', ''With'', ''Without''] \<and>
   map_option length (sub_columns (elements (snd (renderDedicatedRateCard url (Elem r) w)) r)) =
     Some 10"
proof -
  have p: "header_groups (table_markup projects_header) =
      Some [(''Short Term (Up to 3 Months)'', 5), (''Long Term (more than 3 Months) '', 5)]"
    by (simp add: header_groups_def read_projects cell_defs)
  have ps: "sub_columns (table_markup projects_header) =
      Some [''Band 0'', ''Band 1'', ''Band 2'', ''Band 3'', ''Band 4'',
            ''Band 0'', ''Band 1'', ''Band 2'', ''Band 3'', ''Band 4'']"
    by (simp add: sub_columns_def read_projects cell_defs)
  have d: "header_groups (table_markup dedicated_header) =
      Some [(''Band 0'', 2), (''Band 1'', 2), (''Band 2'', 2), (''Band 3'', 2), (''Band 4'', 2)]"
    by (simp add: header_groups_def read_dedicated cell_defs)
  have ds: "sub_columns (table_markup dedicated_header) =
      Some [''With'', ''Without'', ''With'', ''Without'', ''With'', ''Without'',
            ''With'', ''Without'', ''With'', ''Without'']"
    by (simp add: sub_columns_def read_dedicated cell_defs)
  from p have pg: "groups_start_with (table_markup projects_header) [''Short Term'', ''Long Term'']"
    by (simp add: groups_start_with_def)
  from p ps d ds pg show ?thesis
    by (simp add: projects_on_element dedicated_elements)
qed

theorem projects_and_dedicated_groups_witness:
  "map_option (map snd)
     (header_groups (elements (snd (renderProjectsRateCard ''/p'' (Elem 1) blank_world)) 1)) =
     Some [5, 5] \<and>
   map_option length
     (sub_columns (elements (snd (renderProjectsRateCard ''/p'' (Elem 1) blank_world)) 1)) =
     Some 10 \<and>
   map_option (map snd)
     (header_groups (elements (snd (renderDedicatedRateCard ''/p'' (Elem 1) blank_world)) 1)) =
     Some [2, 2, 2, 2, 2] \<and>
   map_option length
     (sub_columns (elements (snd (renderDedicatedRateCard ''/p'' (Elem 1) blank_world)) 1)) =
     Some 10"
  using projects_and_dedicated_groups [of "''/p''" 1 blank_world]
  by simp

subsection \<open>The fetch of the Dedicated renderer\<close>



text \<open>
  C7. Whatever the network does (\<open>n\<close> is any network: a payload, a failure, a body
  that is not JSON, no answer at all), \<open>renderDedicatedRateCard\<close> leaves in the
  container the same Dedicated table, whose body is empty, also after the event loop
  has run the chain. Two hosts that differ only in their network differ, after the
  call and the event loop, only in their log (and still in their network).
\<close>

theorem fetch_outcome_never_rendered:
  "elements (snd (renderDedicatedRateCard url (Elem r) (w\<lparr>network := n\<rparr>))) r =
     ''<table>'' @ dedicated_header @ ''<tbody></tbody></table>'' \<and>
   elements (run_pending (snd (renderDedicatedRateCard url (Elem r) (w\<lparr>network := n\<rparr>)))) r =
     ''<table>'' @ dedicated_header @ ''<tbody></tbody></table>'' \<and>
   map_option tbody (read_table (''<table>'' @ dedicated_header @ ''<tbody></tbody></table>'')) =
     Some [] \<and>
   fst (renderDedicatedRateCard url container (w\<lparr>network := n\<rparr>)) =
     fst (renderDedicatedRateCard url container w) \<and>
   (run_pending (snd (renderDedicatedRateCard url container (w\<lparr>network := n\<rparr>))))
       \<lparr>console := [], network := network w\<rparr> =
     (run_pending (snd (renderDedicatedRateCard url container w)))\<lparr>console := []\<rparr>"
proof -
  have b: "map_option tbody (read_table (table_markup dedicated_header)) = Some []"
    by (simp add: read_dedicated)
  have s: "(run_pending (snd (renderDedicatedRateCard url container (w\<lparr>network := n\<rparr>))))
       \<lparr>console := [], network := network w\<rparr> =
     (run_pending (snd (renderDedicatedRateCard url container w)))\<lparr>console := []\<rparr>"
    by (cases container)
      (simp_all add: renderDedicatedRateCard_def set_innerHTML_def fetch_def Let_def
        run_pending_def)
  from b s show ?thesis
    by (simp add: dedicated_elements dedicated_result run_pending_elements)
      (simp add: table_markup_def)
qed

theorem fetch_outcome_never_rendered_witness:
  "elements (run_pending (snd (renderDedicatedRateCard ''/rate-cards/dedicated/all'' (Elem 2)
      (blank_world\<lparr>network := demo_network\<rparr>)))) 2 =
     ''<table>'' @ dedicated_header @ ''<tbody></tbody></table>'' \<and>
   elements (run_pending (snd (renderDedicatedRateCard ''/rate-cards/dedicated/all'' (Elem 2)
      blank_world))) 2 =
     ''<table>'' @ dedicated_header @ ''<tbody></tbody></table>''"
proof -
  have same: "blank_world\<lparr>network := network blank_world\<rparr> = blank_world"
    by simp
  from fetch_outcome_never_rendered [where url = "''/rate-cards/dedicated/all''" and r = 2
      and w = blank_world and n = demo_network]
    fetch_outcome_never_rendered [where url = "''/rate-cards/dedicated/all''" and r = 2
      and w = blank_world and n = "network blank_world"]
  show ?thesis
    unfolding same by simp
qed

subsection \<open>Calls compared\<close>

text \<open>
  C6. Calling a renderer twice in a row on the same container leaves the container
  as one call does: the second call writes the string the first wrote, and nothing
  accumulates. For the three renderers without a fetch the whole host is the same;
  the Dedicated renderer fetches once per call, so there the statement is about the
  elements and the returned value, with or without the event loop running between
  the calls.
\<close>

theorem render_twice:
  "renderProjectsRateCard url container (snd (renderProjectsRateCard url container w)) =
     renderProjectsRateCard url container w \<and>
   renderDispatchRateCard url container (snd (renderDispatchRateCard url container w)) =
     renderDispatchRateCard url container w \<and>
   renderScheduledRateCard url container (snd (renderScheduledRateCard url container w)) =
     renderScheduledRateCard url container w \<and>
   elements (snd (renderDedicatedRateCard url container
       (snd (renderDedicatedRateCard url container w)))) =
     elements (snd (renderDedicatedRateCard url container w)) \<and>
   elements (snd (renderDedicatedRateCard url container
       (run_pending (snd (renderDedicatedRateCard url container w))))) =
     elements (snd (renderDedicatedRateCard url container w)) \<and>
   fst (renderDedicatedRateCard url container (snd (renderDedicatedRateCard url container w))) =
     fst (renderDedicatedRateCard url container w)"
  by (cases container)
    (simp_all add: projects_on_element dispatch_on_element scheduled_on_element
      projects_on_null dispatch_on_null scheduled_on_null dedicated_elements dedicated_result
      run_pending_elements)

theorem render_twice_witness:
  "elements (snd (renderScheduledRateCard ''/s'' (Elem 0)
      (snd (renderScheduledRateCard ''/s'' (Elem 0) demo_world)))) 0 =
     elements (snd (renderScheduledRateCard ''/s'' (Elem 0) demo_world)) 0 \<and>
   elements (snd (renderDedicatedRateCard ''/s'' (Elem 0)
      (snd (renderDedicatedRateCard ''/s'' (Elem 0) demo_world)))) 0 =
     elements (snd (renderDedicatedRateCard ''/s'' (Elem 0) demo_world)) 0"
  using render_twice [where url = "''/s''" and container = "Elem 0" and w = demo_world]
  by simp

text \<open>
  C8. The url is used by the Dedicated renderer only. For every container and all
  urls \<open>u1\<close>, \<open>u2\<close>, each of the other three renderers returns the same value and
  the same host for \<open>u1\<close> as for \<open>u2\<close>; it issues no request, logs nothing and
  sets up no chain.
\<close>

theorem url_unused_without_fetch:
  "renderProjectsRateCard u1 container w = renderProjectsRateCard u2 container w \<and>
   requests (snd (renderProjectsRateCard u1 container w)) = requests w \<and>
   console (snd (renderProjectsRateCard u1 container w)) = console w \<and>
   pending (snd (renderProjectsRateCard u1 container w)) = pending w \<and>
   renderDispatchRateCard u1 container w = renderDispatchRateCard u2 container w \<and>
   requests (snd (renderDispatchRateCard u1 container w)) = requests w \<and>
   console (snd (renderDispatchRateCard u1 container w)) = console w \<and>
   pending (snd (renderDispatchRateCard u1 container w)) = pending w \<and>
   renderScheduledRateCard u1 container w = renderScheduledRateCard u2 container w \<and>
   requests (snd (renderScheduledRateCard u1 container w)) = requests w \<and>
   console (snd (renderScheduledRateCard u1 container w)) = console w \<and>
   pending (snd (renderScheduledRateCard u1 container w)) = pending w"
  by (cases container)
    (simp_all add: projects_on_element dispatch_on_element scheduled_on_element
      projects_on_null dispatch_on_null scheduled_on_null)

theorem url_unused_without_fetch_witness:
  "renderProjectsRateCard ''/a'' (Elem 0) demo_world =
     renderProjectsRateCard ''https://example.org/b?c=<th>'' (Elem 0) demo_world \<and>
   requests (snd (renderProjectsRateCard ''/a'' (Elem 0) demo_world)) = [] \<and>
   requests (snd (renderDedicatedRateCard ''/a'' (Elem 0) demo_world)) = [''/a'']"
proof -
  have none: "requests demo_world = []"
    by (simp add: demo_world_def)
  note t = url_unused_without_fetch [where ?u1.0 = "''/a''" and container = "Elem 0"
      and w = demo_world and ?u2.0 = "''https://example.org/b?c=<th>''"]
  from t have same: "renderProjectsRateCard ''/a'' (Elem 0) demo_world =
      renderProjectsRateCard ''https://example.org/b?c=<th>'' (Elem 0) demo_world"
    by (rule conjunct1)
  from t have "requests (snd (renderProjectsRateCard ''/a'' (Elem 0) demo_world)) =
      requests demo_world"
    by (rule conjunct1 [OF conjunct2])
  with none have quiet: "requests (snd (renderProjectsRateCard ''/a'' (Elem 0) demo_world)) = []"
    by simp
  from none have fetched: "requests (snd (renderDedicatedRateCard ''/a'' (Elem 0) demo_world)) =
      [''/a'']"
    by (simp add: dedicated_requests)
  from same quiet fetched show ?thesis
    by (intro conjI)
qed

subsection \<open>A missing container\<close>

text \<open>
  C9. With \<open>null\<close> for the container every renderer ends in the \<open>TypeError\<close> of
  the assignment to \<open>innerHTML\<close>; nothing in the renderer catches it, so it is the
  outcome of the call. No element changes. The Dedicated renderer has issued its
  fetch by then.
\<close>

theorem null_container_raises:
  "renderProjectsRateCard url Null w = (Inl TypeError, w) \<and>
   renderDispatchRateCard url Null w = (Inl TypeError, w) \<and>
   renderScheduledRateCard url Null w = (Inl TypeError, w) \<and>
   fst (renderDedicatedRateCard url Null w) = Inl TypeError \<and>
   elements (snd (renderDedicatedRateCard url Null w)) = elements w \<and>
   requests (snd (renderDedicatedRateCard url Null w)) = requests w @ [url]"
  by (simp add: projects_on_null dispatch_on_null scheduled_on_null dedicated_result
      dedicated_elements dedicated_requests)

theorem null_container_raises_witness:
  "fst (renderProjectsRateCard ''/p'' Null demo_world) = Inl TypeError \<and>
   fst (renderDedicatedRateCard ''/p'' Null demo_world) = Inl TypeError \<and>
   requests (snd (renderDedicatedRateCard ''/p'' Null demo_world)) = [''/p'']"
proof -
  have none: "requests demo_world = []"
    by (simp add: demo_world_def)
  from none null_container_raises [where url = "''/p''" and w = demo_world]
  show ?thesis
    by simp
qed

subsection \<open>No interpolation\<close>

text \<open>
  C10. What each renderer writes is one fixed string per category, into which
  neither argument is inserted: for all urls, elements and hosts the written content
  is the same, character for character, so the url cannot bring markup into it. This
  holds for the Dedicated renderer too, which uses the url for its fetch only.
\<close>

theorem markup_is_constant:
  "elements (snd (renderProjectsRateCard url (Elem r) w)) r =
     ''<table>'' @ projects_header @ ''<tbody></tbody></table>'' \<and>
   elements (snd (renderProjectsRateCard url (Elem r) w)) r =
     elements (snd (renderProjectsRateCard url' (Elem r') w')) r' \<and>
   elements (snd (renderDispatchRateCard url (Elem r) w)) r =
     ''<table>'' @ dispatch_header @ ''<tbody></tbody></table>'' \<and>
   elements (snd (renderDispatchRateCard url (Elem r) w)) r =
     elements (snd (renderDispatchRateCard url' (Elem r') w')) r' \<and>
   elements (snd (renderScheduledRateCard url (Elem r) w)) r =
     ''<table>'' @ scheduled_header @ ''<tbody></tbody></table>'' \<and>
   elements (snd (renderScheduledRateCard url (Elem r) w)) r =
     elements (snd (renderScheduledRateCard url' (Elem r') w')) r' \<and>
   elements (snd (renderDedicatedRateCard url (Elem r) w)) r =
     ''<table>'' @ dedicated_header @ ''<tbody></tbody></table>'' \<and>
   elements (snd (renderDedicatedRateCard url (Elem r) w)) r =
     elements (snd (renderDedicatedRateCard url' (Elem r') w')) r'"
  by (simp add: projects_on_element dispatch_on_element scheduled_on_element dedicated_elements)
    (simp add: table_markup_def)

theorem markup_is_constant_witness:
  "elements (snd (renderDedicatedRateCard ''/rate-cards/dedicated/all'' (Elem 0) demo_world)) 0 =
     elements (snd (renderDedicatedRateCard ''<script>alert(1)</script>'' (Elem 9) blank_world)) 9 \<and>
   \<not> occurs_in ''<script>alert(1)</script>''
     (elements (snd (renderDedicatedRateCard ''<script>alert(1)</script>'' (Elem 9) blank_world)) 9) \<and>
   \<not> occurs_in ''/rate-cards/dedicated/all''
     (elements (snd (renderDedicatedRateCard ''/rate-cards/dedicated/all'' (Elem 0) demo_world)) 0)"
proof -
  note t = markup_is_constant [where url = "''/rate-cards/dedicated/all''" and r = 0
      and w = demo_world and url' = "''<script>alert(1)</script>''" and r' = 9
      and w' = blank_world]
  have a: "\<not> occurs_in ''<script>alert(1)</script>''
      (''<table>'' @ dedicated_header @ ''<tbody></tbody></table>'')"
    by (simp add: dedicated_header_def)
  have b: "\<not> occurs_in ''/rate-cards/dedicated/all''
      (''<table>'' @ dedicated_header @ ''<tbody></tbody></table>'')"
    by (simp add: dedicated_header_def)
  from t a b show ?thesis
    by (simp add: dedicated_elements table_markup_def)
qed

end
